theory Spec2Isabelle
  imports Main
begin

section \<open>Story character extractor: vector index and orchestrator\<close>

text \<open>
  The program is a thin layer of Python over an embedding provider, a generation provider,
  a vector-index library, the JSON parser and the file system. The two classes of the
  source, \<open>VectorDB\<close> (vector_db.py) and \<open>StoryProcessor\<close> (process_stories.py), are
  embedded here method by method. What the libraries and the operating system do is not
  part of the source; it enters the model as the fields of an environment record, so that
  every statement below holds for each behaviour of those collaborators.
\<close>

subsection \<open>Exceptions\<close>

text \<open>
  The source raises \<open>ValueError\<close> and \<open>FileNotFoundError\<close> itself, each with a
  message. Every other exception originates inside a library or the operating system and
  is kept as its class name and message. All of them are subclasses of Python's
  \<open>Exception\<close>, which is what the handlers of the source catch.
\<close>

datatype lib_exn = LibExn (cls: string) (msg: string)

datatype exn = ValueError string | FileNotFoundError string | Lib lib_exn

fun str :: "exn \<Rightarrow> string" where
  "str (ValueError m) = m"
| "str (FileNotFoundError m) = m"
| "str (Lib e) = msg e"

fun is_JSONDecodeError :: "exn \<Rightarrow> bool" where
  "is_JSONDecodeError (Lib e) = (cls e = ''JSONDecodeError'')"
| "is_JSONDecodeError _ = False"

subsection \<open>Data\<close>

text \<open>The values \<open>json.loads\<close> can return.\<close>

datatype json =
    JNull
  | JBool bool
  | JInt int
  | JFloat string
  | JString string
  | JArray "json list"
  | JObject "(string \<times> json) list"

text \<open>langchain's \<open>Document\<close>: a text and a metadata dictionary.\<close>

record document =
  page_content :: string
  metadata :: "(string \<times> string) list"

text \<open>\<open>Union[str, Document]\<close>, the element type of the argument of \<open>create_vector_db\<close>.\<close>

datatype doc_input = Str string | Doc document

text \<open>
  A FAISS store holds the indexed documents, each with its embedding. The embedding
  vectors are opaque to the program, hence the type parameter.
\<close>

type_synonym 'v faiss = "(document \<times> 'v) list"

text \<open>What the program does to the outside, in order: lines printed and external calls.\<close>

datatype event =
    Print string
  | EmbedDocument string
  | EmbedQuery string
  | Generate string
  | SaveLocal
  | LoadLocal
  | Remove

text \<open>
  The state: the attribute \<open>self.db\<close> of the \<open>VectorDB\<close> instance, what lies at
  \<open>self.db_path\<close> on disk (nothing, something \<open>FAISS.load_local\<close> fails on with the
  given exception, or a stored index), and the events so far.
\<close>

record 'v world =
  db :: "'v faiss option"
  disk :: "(lib_exn + 'v faiss) option"
  trace :: "event list"

text \<open>
  The collaborators: the embedding provider (for documents and for queries), the ranking
  of the vector index, the generation provider, \<open>json.loads\<close>, and whether writing
  the index to disk or removing it fails.
\<close>

record 'v env =
  embed_document :: "string \<Rightarrow> lib_exn + 'v"
  embed_query :: "string \<Rightarrow> lib_exn + 'v"
  nearest :: "'v faiss \<Rightarrow> 'v \<Rightarrow> int \<Rightarrow> document list"
  llm :: "string \<Rightarrow> lib_exn + string"
  json_loads :: "string \<Rightarrow> lib_exn + json"
  save_local_error :: "lib_exn option"
  os_remove_error :: "lib_exn option"

subsection \<open>Statements that may raise\<close>

text \<open>
  A statement maps the state to a result, an exception or a value, and the state after
  it. A raised exception keeps the changes made before it, as in Python.
\<close>

type_synonym ('a, 'v) prog = "'v world \<Rightarrow> (exn + 'a) \<times> 'v world"

definition succeed :: "'a \<Rightarrow> ('a, 'v) prog" where
  "succeed x = (\<lambda>w. (Inr x, w))"

definition raise :: "exn \<Rightarrow> ('a, 'v) prog" where
  "raise e = (\<lambda>w. (Inl e, w))"

definition then_do :: "('a, 'v) prog \<Rightarrow> ('a \<Rightarrow> ('b, 'v) prog) \<Rightarrow> ('b, 'v) prog" where
  "then_do m f = (\<lambda>w. case m w of (Inl e, w') \<Rightarrow> (Inl e, w') | (Inr x, w') \<Rightarrow> f x w')"

text \<open>\<open>try: m except Exception as e: h e\<close>\<close>

definition try_except :: "('a, 'v) prog \<Rightarrow> (exn \<Rightarrow> ('a, 'v) prog) \<Rightarrow> ('a, 'v) prog" where
  "try_except m h = (\<lambda>w. case m w of (Inl e, w') \<Rightarrow> h e w' | (Inr x, w') \<Rightarrow> (Inr x, w'))"

text \<open>\<open>try: m except C: h\<close> for an exception class \<open>C\<close>: other exceptions pass through.\<close>

definition try_except_only ::
  "(exn \<Rightarrow> bool) \<Rightarrow> ('a, 'v) prog \<Rightarrow> (exn \<Rightarrow> ('a, 'v) prog) \<Rightarrow> ('a, 'v) prog" where
  "try_except_only C m h =
     (\<lambda>w. case m w of
            (Inl e, w') \<Rightarrow> if C e then h e w' else (Inl e, w')
          | (Inr x, w') \<Rightarrow> (Inr x, w'))"

definition emit :: "event \<Rightarrow> (unit, 'v) prog" where
  "emit ev = (\<lambda>w. (Inr (), w\<lparr>trace := trace w @ [ev]\<rparr>))"

definition print :: "string \<Rightarrow> (unit, 'v) prog" where
  "print s = emit (Print s)"

text \<open>
  What a library answers, as a statement; and a call that is recorded: the event, then
  the answer.
\<close>

definition lib :: "lib_exn + 'a \<Rightarrow> ('a, 'v) prog" where
  "lib r = (case r of Inl e \<Rightarrow> raise (Lib e) | Inr x \<Rightarrow> succeed x)"

definition call :: "event \<Rightarrow> lib_exn + 'a \<Rightarrow> ('a, 'v) prog" where
  "call ev r = then_do (emit ev) (\<lambda>_. lib r)"

subsection \<open>The file system and the vector-index library\<close>

definition db_path :: string where
  "db_path = ''vector_store.faiss''"

definition os_path_exists :: "(bool, 'v) prog" where
  "os_path_exists = (\<lambda>w. (Inr (disk w \<noteq> None), w))"

definition os_remove :: "'v env \<Rightarrow> (unit, 'v) prog" where
  "os_remove env =
     then_do (emit Remove) (\<lambda>_ w.
       case disk w of
         None \<Rightarrow> (Inl (Lib (LibExn ''FileNotFoundError'' db_path)), w)
       | Some _ \<Rightarrow>
          (case os_remove_error env of
             Some e \<Rightarrow> (Inl (Lib e), w)
           | None \<Rightarrow> (Inr (), w\<lparr>disk := None\<rparr>)))"

definition save_local :: "'v env \<Rightarrow> 'v faiss \<Rightarrow> (unit, 'v) prog" where
  "save_local env idx =
     then_do (emit SaveLocal) (\<lambda>_ w.
       case save_local_error env of
         Some e \<Rightarrow> (Inl (Lib e), w)
       | None \<Rightarrow> (Inr (), w\<lparr>disk := Some (Inr idx)\<rparr>))"

definition load_local :: "('v faiss, 'v) prog" where
  "load_local =
     then_do (emit LoadLocal) (\<lambda>_ w.
       case disk w of
         None \<Rightarrow> (Inl (Lib (LibExn ''RuntimeError'' db_path)), w)
       | Some (Inl e) \<Rightarrow> (Inl (Lib e), w)
       | Some (Inr idx) \<Rightarrow> (Inr idx, w))"

text \<open>
  \<open>FAISS.from_documents\<close>: one embedding per document, in order; the first failure of the
  provider ends the call with that exception.
\<close>

fun from_documents :: "'v env \<Rightarrow> document list \<Rightarrow> ('v faiss, 'v) prog" where
  "from_documents env [] = succeed []"
| "from_documents env (d # ds) =
     then_do (call (EmbedDocument (page_content d)) (embed_document env (page_content d)))
       (\<lambda>v. then_do (from_documents env ds) (\<lambda>rest. succeed ((d, v) # rest)))"

text \<open>\<open>db.similarity_search(query, k)\<close> of the library: embed the query, then rank.\<close>

definition faiss_similarity_search ::
  "'v env \<Rightarrow> 'v faiss \<Rightarrow> string \<Rightarrow> int \<Rightarrow> (document list, 'v) prog" where
  "faiss_similarity_search env idx query k =
     then_do (call (EmbedQuery query) (embed_query env query))
       (\<lambda>v. succeed (nearest env idx v k))"

subsection \<open>\<open>VectorDB\<close> (vector_db.py)\<close>

definition ensure_documents :: "doc_input list \<Rightarrow> document list" where
  "ensure_documents documents =
     map (\<lambda>doc. case doc of Doc d \<Rightarrow> d | Str s \<Rightarrow> \<lparr>page_content = s, metadata = []\<rparr>)
       documents"

definition save_vector_db :: "'v env \<Rightarrow> (bool, 'v) prog" where
  "save_vector_db env =
     try_except
       (\<lambda>w. case db w of
               None \<Rightarrow> raise (ValueError ''No database to save'') w
             | Some idx \<Rightarrow>
                 then_do (save_local env idx) (\<lambda>_.
                 then_do (print (''Successfully saved vector database to '' @ db_path)) (\<lambda>_.
                 succeed True)) w)
       (\<lambda>e. then_do (print (''Error saving vector database: '' @ str e)) (\<lambda>_.
             succeed False))"

definition create_vector_db :: "'v env \<Rightarrow> doc_input list \<Rightarrow> (bool, 'v) prog" where
  "create_vector_db env documents =
     try_except
       (if documents = [] then raise (ValueError ''No documents provided for initialization'')
        else
          then_do (from_documents env (ensure_documents documents)) (\<lambda>idx.
          then_do (\<lambda>w. (Inr (), w\<lparr>db := Some idx\<rparr>)) (\<lambda>_.
          save_vector_db env)))
       (\<lambda>e. then_do (print (''Error creating vector database: '' @ str e)) (\<lambda>_.
             succeed False))"

definition load_vector_db :: "'v env \<Rightarrow> (bool, 'v) prog" where
  "load_vector_db env =
     try_except
       (then_do os_path_exists (\<lambda>ex.
          if \<not> ex then raise (FileNotFoundError (''No vector database found at '' @ db_path))
          else
            then_do load_local (\<lambda>idx.
            then_do (\<lambda>w. (Inr (), w\<lparr>db := Some idx\<rparr>)) (\<lambda>_.
            then_do (print (''Successfully loaded vector database from '' @ db_path)) (\<lambda>_.
            succeed True)))))
       (\<lambda>e. then_do (print (''Error loading vector database: '' @ str e)) (\<lambda>_.
             succeed False))"

definition not_initialized :: exn where
  "not_initialized =
     ValueError ''Vector database not initialized. Please create or load it first.''"

definition similarity_search :: "'v env \<Rightarrow> string \<Rightarrow> int \<Rightarrow> (document list, 'v) prog" where
  "similarity_search env query k =
     (\<lambda>w. case db w of
             None \<Rightarrow> raise not_initialized w
           | Some idx \<Rightarrow> faiss_similarity_search env idx query k w)"

definition clear_vector_db :: "'v env \<Rightarrow> (bool, 'v) prog" where
  "clear_vector_db env =
     try_except
       (then_do os_path_exists (\<lambda>ex.
        then_do (if ex then os_remove env else succeed ()) (\<lambda>_.
        then_do (\<lambda>w. (Inr (), w\<lparr>db := None\<rparr>)) (\<lambda>_.
        succeed True))))
       (\<lambda>e. then_do (print (''Error clearing vector database: '' @ str e)) (\<lambda>_.
             succeed False))"

subsection \<open>The Chunker\<close>

text \<open>
  Modelled from the spec: the source builds langchain's \<open>CharacterTextSplitter\<close> and
  calls its \<open>split_documents\<close>; the splitter's code is not part of the source files. The
  definitions \<open>units\<close>, \<open>take_last\<close>, \<open>start_next\<close>, \<open>pack\<close>, \<open>split_text\<close> and
  \<open>split_documents\<close> follow section 4.1 of the specification: the text is split on the
  separator into units; consecutive units are packed greedily into a chunk until adding
  the next unit would exceed \<open>chunk_size\<close>; when a chunk is closed its trailing
  \<open>chunk_overlap\<close> characters are carried forward as the start of the next chunk, before
  the separator and the unit that did not fit; a unit longer than \<open>chunk_size\<close> alone
  becomes its own oversized chunk, without carried characters, and nothing is truncated.
  Chunks inherit the metadata (the title) of their document and come out in document
  order. The split fails with \<open>InvalidInput\<close> when \<open>chunk_overlap \<ge> chunk_size\<close> or
  when there is no document.
\<close>

function units :: "string \<Rightarrow> string \<Rightarrow> string \<Rightarrow> string list" where
  "units sep cur [] = [cur]"
| "units sep cur (c # cs) =
     (if sep \<noteq> [] \<and> take (length sep) (c # cs) = sep
      then cur # units sep [] (drop (length sep) (c # cs))
      else units sep (cur @ [c]) cs)"
  by pat_completeness auto
termination
  by (relation "measure (\<lambda>(sep, cur, s). length s)") (auto simp: neq_Nil_conv)

declare units.simps [simp del]

definition take_last :: "nat \<Rightarrow> 'a list \<Rightarrow> 'a list" where
  "take_last n xs = drop (length xs - n) xs"

definition start_next :: "nat \<Rightarrow> nat \<Rightarrow> string \<Rightarrow> string \<Rightarrow> string \<Rightarrow> string" where
  "start_next chunk_size chunk_overlap sep closed u =
     (if chunk_size < length u then u else take_last chunk_overlap closed @ sep @ u)"

fun pack :: "nat \<Rightarrow> nat \<Rightarrow> string \<Rightarrow> string option \<Rightarrow> string list \<Rightarrow> string list" where
  "pack chunk_size chunk_overlap sep None [] = []"
| "pack chunk_size chunk_overlap sep (Some cur) [] = [cur]"
| "pack chunk_size chunk_overlap sep None (u # us) =
     pack chunk_size chunk_overlap sep (Some u) us"
| "pack chunk_size chunk_overlap sep (Some cur) (u # us) =
     (if length (cur @ sep @ u) \<le> chunk_size
      then pack chunk_size chunk_overlap sep (Some (cur @ sep @ u)) us
      else cur # pack chunk_size chunk_overlap sep
                   (Some (start_next chunk_size chunk_overlap sep cur u)) us)"

definition split_text :: "nat \<Rightarrow> nat \<Rightarrow> string \<Rightarrow> string \<Rightarrow> string list" where
  "split_text chunk_size chunk_overlap sep text =
     pack chunk_size chunk_overlap sep None (units sep [] text)"

definition split_documents ::
  "nat \<Rightarrow> nat \<Rightarrow> string \<Rightarrow> document list \<Rightarrow> lib_exn + document list" where
  "split_documents chunk_size chunk_overlap sep documents =
     (if chunk_overlap \<ge> chunk_size \<or> documents = []
      then Inl (LibExn ''InvalidInput'' ''chunk_overlap >= chunk_size or no documents'')
      else Inr (concat (map (\<lambda>d. map (\<lambda>t. \<lparr>page_content = t, metadata = metadata d\<rparr>)
                                   (split_text chunk_size chunk_overlap sep (page_content d)))
                         documents)))"

subsection \<open>\<open>StoryProcessor\<close> (process_stories.py)\<close>

text \<open>Python's \<open>s.replace(old, new)\<close>: every occurrence, left to right, not overlapping.\<close>

function replace :: "string \<Rightarrow> string \<Rightarrow> string \<Rightarrow> string" where
  "replace old new s =
     (if old = [] then concat (map (\<lambda>c. new @ [c]) s) @ new
      else if s = [] then []
      else if take (length old) s = old then new @ replace old new (drop (length old) s)
      else hd s # replace old new (tl s))"
  by pat_completeness auto
termination
  by (relation "measure (\<lambda>(old, new, s). length s)") (auto simp: neq_Nil_conv)

declare replace.simps [simp del]

text \<open>
  An uploaded file: its name, and what \<open>file.read().decode("utf-8")\<close> gives, the text
  or the exception raised (a \<open>UnicodeDecodeError\<close> for bytes that are not UTF-8).
\<close>

record uploaded_file =
  name :: string
  read_decode :: "lib_exn + string"

definition document_of :: "uploaded_file \<Rightarrow> string \<Rightarrow> document" where
  "document_of file content =
     \<lparr>page_content = content, metadata = [(''title'', replace ''.txt'' [] (name file))]\<rparr>"

text \<open>The loop over the files, with the list \<open>documents\<close> it appends to.\<close>

fun read_files :: "uploaded_file list \<Rightarrow> document list \<Rightarrow> (document list, 'v) prog" where
  "read_files [] documents = succeed documents"
| "read_files (file # files) documents =
     then_do
       (try_except
          (then_do (lib (read_decode file)) (\<lambda>content.
           succeed (documents @ [document_of file content])))
          (\<lambda>e. then_do (print (''Error processing file '' @ name file @ '': '' @ str e)) (\<lambda>_.
                succeed documents)))
       (read_files files)"

definition compute_embeddings :: "'v env \<Rightarrow> uploaded_file list \<Rightarrow> (string, 'v) prog" where
  "compute_embeddings env files =
     try_except
       (if files = [] then raise (ValueError ''No files provided'')
        else
          then_do (read_files files []) (\<lambda>documents.
            if documents = []
            then raise (ValueError ''No valid documents found in provided files'')
            else
              then_do (lib (split_documents 1000 200 [CHR 0x0A] documents)) (\<lambda>texts.
              then_do (create_vector_db env (map Doc texts)) (\<lambda>success.
              if success then succeed ''Embeddings computed and stored successfully''
              else succeed ''Error storing embeddings''))))
       (\<lambda>e. succeed (''Error computing embeddings: '' @ str e))"

text \<open>The prompt template of \<open>_setup_prompt_template\<close>, filled in.\<close>

definition prompt_template :: "string \<Rightarrow> string \<Rightarrow> string" where
  \<open>prompt_template context character =
     ''\<newline>            Extract structured details about the character "'' @ character @
     ''" from the following story context.\<newline>'' @
     ''            Focus only on information that is explicitly mentioned in the story.\<newline>'' @
     ''            \<newline>'' @
     ''            Required details:\<newline>'' @
     ''            1. Character'' @ [CHR 0x27] @ ''s full name\<newline>'' @
     ''            2. Title of the story they appear in\<newline>'' @
     ''            3. A concise summary of their role and actions in the story\<newline>'' @
     ''            4. Their relationships with other characters\<newline>'' @
     ''            5. Their character type (protagonist, antagonist, or supporting character)\<newline>'' @
     ''            \<newline>'' @
     ''            Respond only with valid JSON in this exact format:\<newline>'' @
     ''            {\<newline>'' @
     ''                "name": "Character'' @ [CHR 0x27] @ ''s name",\<newline>'' @
     ''                "storyTitle": "Story title",\<newline>'' @
     ''                "summary": "Brief character summary",\<newline>'' @
     ''                "relations": [\<newline>'' @
     ''                    {"name": "Related character name", "relation": "Relationship description"}\<newline>'' @
     ''                ],\<newline>'' @
     ''                "characterType": "Character type"\<newline>'' @
     ''            }\<newline>'' @
     ''            \<newline>'' @
     ''            If the character is not found in the story, respond with:\<newline>'' @
     ''            {"error": "Character not found in the stories"}\<newline>'' @
     ''            \<newline>'' @
     ''            Context: '' @ context @ ''\<newline>'' @
     ''            Character to analyze: '' @ character @ ''\<newline>'' @
     ''            ''\<close>

text \<open>
  Modelled from the spec: the retrieval chain (langchain's \<open>RetrievalQA\<close> with the
  \<open>stuff\<close> chain type, whose code is not part of the source files). Following section 4.3
  of the specification it searches the index for the four chunks nearest to the name,
  concatenates their text into the context block, renders the prompt template and invokes
  the generation provider once.
\<close>

fun join :: "string \<Rightarrow> string list \<Rightarrow> string" where
  "join sep [] = []"
| "join sep [x] = x"
| "join sep (x # y # ys) = x @ sep @ join sep (y # ys)"

definition qa_chain_run :: "'v env \<Rightarrow> 'v faiss \<Rightarrow> string \<Rightarrow> (string, 'v) prog" where
  "qa_chain_run env idx character_name =
     then_do (faiss_similarity_search env idx character_name 4) (\<lambda>docs.
       let prompt = prompt_template (join [CHR 0x0A, CHR 0x0A] (map page_content docs))
                      character_name
       in call (Generate prompt) (llm env prompt))"

definition parse_error_result :: json where
  "parse_error_result = JObject [(''error'', JString ''Failed to parse character information'')]"

definition get_character_info :: "'v env \<Rightarrow> string \<Rightarrow> (json, 'v) prog" where
  "get_character_info env character_name =
     try_except
       (then_do (\<lambda>w. (Inr (db w), w)) (\<lambda>d.
        then_do
          (if d = None
           then then_do (load_vector_db env) (\<lambda>success.
                  if \<not> success then raise (ValueError ''Failed to load vector database'')
                  else succeed ())
           else succeed ()) (\<lambda>_.
        then_do
          (\<lambda>w. case db w of
                  None \<Rightarrow> raise (Lib (LibExn ''AttributeError''
                            ''NoneType object has no attribute as_retriever'')) w
                | Some idx \<Rightarrow> qa_chain_run env idx character_name w) (\<lambda>response.
        try_except_only is_JSONDecodeError
          (lib (json_loads env response))
          (\<lambda>_. succeed parse_error_result)))))
       (\<lambda>e. succeed
              (JObject [(''error'', JString (''Error getting character information: '' @ str e))]))"

definition clean_up :: "'v env \<Rightarrow> (bool, 'v) prog" where
  "clean_up env = clear_vector_db env"

subsection \<open>Notions used in the statements\<close>

text \<open>The embedding provider answers for every document of the list.\<close>

definition embeddings_ok :: "'v env \<Rightarrow> document list \<Rightarrow> bool" where
  "embeddings_ok env docs = list_all (\<lambda>d. \<not> isl (embed_document env (page_content d))) docs"

text \<open>
  The index is the complete index of the given input: one entry per document, in order,
  each with the provider's embedding of its text.
\<close>

definition complete_index :: "'v env \<Rightarrow> doc_input list \<Rightarrow> 'v faiss \<Rightarrow> bool" where
  "complete_index env documents idx =
     (map fst idx = ensure_documents documents \<and>
      list_all (\<lambda>(d, v). embed_document env (page_content d) = Inr v) idx)"

text \<open>
  The documents of the files that decode, in the order of the files, and the warnings
  printed for the others.
\<close>

definition surviving :: "uploaded_file list \<Rightarrow> document list" where
  "surviving files =
     concat (map (\<lambda>file. case read_decode file of
                           Inl e \<Rightarrow> []
                         | Inr content \<Rightarrow> [document_of file content]) files)"

definition warnings :: "uploaded_file list \<Rightarrow> event list" where
  "warnings files =
     concat (map (\<lambda>file. case read_decode file of
                           Inl e \<Rightarrow> [Print (''Error processing file '' @ name file @ '': '' @ msg e)]
                         | Inr content \<Rightarrow> []) files)"

text \<open>
  The Character Info Result of the specification (section 3): an object with the fields
  \<open>name\<close>, \<open>storyTitle\<close>, \<open>summary\<close>, \<open>characterType\<close> (one of protagonist, antagonist,
  supporting) and \<open>relations\<close> (a sequence of objects with the fields \<open>name\<close> and
  \<open>relation\<close>); an error marker is an object with the field \<open>error\<close>.
\<close>

fun is_dict :: "json \<Rightarrow> bool" where
  "is_dict (JObject kvs) = True"
| "is_dict _ = False"

fun is_string :: "json \<Rightarrow> bool" where
  "is_string (JString s) = True"
| "is_string _ = False"

definition has_keys :: "(string \<times> json) list \<Rightarrow> string list \<Rightarrow> bool" where
  "has_keys kvs ks = (distinct (map fst kvs) \<and> set (map fst kvs) = set ks)"

fun is_relation :: "json \<Rightarrow> bool" where
  "is_relation (JObject kvs) =
     (has_keys kvs [''name'', ''relation''] \<and> list_all (\<lambda>kv. is_string (snd kv)) kvs)"
| "is_relation _ = False"

fun is_relations :: "json option \<Rightarrow> bool" where
  "is_relations (Some (JArray rs)) = list_all is_relation rs"
| "is_relations _ = False"

fun is_character_type :: "json option \<Rightarrow> bool" where
  "is_character_type (Some (JString s)) =
     (s = ''protagonist'' \<or> s = ''antagonist'' \<or> s = ''supporting'')"
| "is_character_type _ = False"

fun is_text_field :: "json option \<Rightarrow> bool" where
  "is_text_field (Some (JString s)) = True"
| "is_text_field _ = False"

fun character_info_shape :: "json \<Rightarrow> bool" where
  "character_info_shape (JObject kvs) =
     (has_keys kvs [''name'', ''storyTitle'', ''summary'', ''characterType'', ''relations''] \<and>
      is_text_field (map_of kvs ''name'') \<and>
      is_text_field (map_of kvs ''storyTitle'') \<and>
      is_text_field (map_of kvs ''summary'') \<and>
      is_character_type (map_of kvs ''characterType'') \<and>
      is_relations (map_of kvs ''relations''))"
| "character_info_shape _ = False"

fun error_marker :: "json \<Rightarrow> bool" where
  "error_marker (JObject kvs) = (''error'' \<in> set (map fst kvs))"
| "error_marker _ = False"

definition error_result :: "string \<Rightarrow> json" where
  "error_result m = JObject [(''error'', JString (''Error getting character information: '' @ m))]"

text \<open>The prompt the chain sends to the generation provider for a query embedded as \<open>v\<close>.\<close>

definition the_prompt :: "'v env \<Rightarrow> 'v faiss \<Rightarrow> 'v \<Rightarrow> string \<Rightarrow> string" where
  "the_prompt env idx v character_name =
     prompt_template (join [CHR 0x0A, CHR 0x0A] (map page_content (nearest env idx v 4)))
       character_name"


text \<open>The events of a retrieval: embedding the query and calling the generation provider.\<close>

fun retrieval_event :: "event \<Rightarrow> bool" where
  "retrieval_event (EmbedQuery q) = True"
| "retrieval_event (Generate p) = True"
| "retrieval_event _ = False"

subsection \<open>Example inputs\<close>

text \<open>
  A provider that embeds a text as its length, an index that ranks in insertion order, a
  generation provider that answers \<open>42\<close>, and \<open>json.loads\<close> at the texts the examples
  use: \<open>42\<close> is the integer 42, \<open>{"foo": 1}\<close> is an object with one field, and the
  other text the examples use, \<open>not json\<close>, is rejected with a \<open>JSONDecodeError\<close>.
\<close>

definition json_decode_error :: lib_exn where
  "json_decode_error = LibExn ''JSONDecodeError'' ''Expecting value: line 1 column 1 (char 0)''"

definition json_loads_sample :: "string \<Rightarrow> lib_exn + json" where
  \<open>json_loads_sample s =
     (if s = ''42'' then Inr (JInt 42)
      else if s = ''{"foo": 1}'' then Inr (JObject [(''foo'', JInt 1)])
      else Inl json_decode_error)\<close>

definition demo_env :: "nat env" where
  "demo_env =
     \<lparr>embed_document = (\<lambda>s. Inr (length s)),
      embed_query = (\<lambda>s. Inr (length s)),
      nearest = (\<lambda>idx v k. map fst (take (nat k) idx)),
      llm = (\<lambda>p. Inr ''42''),
      json_loads = json_loads_sample,
      save_local_error = None,
      os_remove_error = None\<rparr>"

definition demo_doc :: document where
  "demo_doc = \<lparr>page_content = ''Alice met Bob.'', metadata = [(''title'', ''Tale'')]\<rparr>"

definition demo_world :: "nat world" where
  "demo_world =
     \<lparr>db = Some [(demo_doc, 14)], disk = Some (Inr [(demo_doc, 14)]), trace = []\<rparr>"

definition empty_world :: "nat world" where
  "empty_world = \<lparr>db = None, disk = None, trace = []\<rparr>"

definition permission_error :: lib_exn where
  "permission_error = LibExn ''PermissionError'' ''[Errno 13] Permission denied''"

definition provider_error :: lib_exn where
  "provider_error = LibExn ''HTTPStatusError'' ''429 Too Many Requests''"

definition decode_error :: lib_exn where
  "decode_error = LibExn ''UnicodeDecodeError'' ''invalid start byte''"

definition tale_file :: uploaded_file where
  "tale_file = \<lparr>name = ''tale.txt'', read_decode = Inr ''Alice met Bob.''\<rparr>"

definition binary_file :: uploaded_file where
  "binary_file = \<lparr>name = ''photo.txt'', read_decode = Inl decode_error\<rparr>"



section \<open>Properties\<close>

subsection \<open>Unfolding the statements\<close>

lemmas prog_defs = succeed_def raise_def then_do_def try_except_def try_except_only_def
  emit_def print_def call_def lib_def

lemma clear_vector_db_eq:
  "clear_vector_db env w =
     (case disk w of
        None \<Rightarrow> (Inr True, w\<lparr>db := None\<rparr>)
      | Some x \<Rightarrow>
         (case os_remove_error env of
            None \<Rightarrow> (Inr True, w\<lparr>trace := trace w @ [Remove], disk := None, db := None\<rparr>)
          | Some e \<Rightarrow>
             (Inr False, w\<lparr>trace := trace w @ [Remove,
                               Print (''Error clearing vector database: '' @ msg e)]\<rparr>)))"
  by (simp add: clear_vector_db_def os_path_exists_def os_remove_def prog_defs
      split: option.splits)

lemma similarity_search_eq:
  "similarity_search env query k w =
     (case db w of
        None \<Rightarrow> (Inl not_initialized, w)
      | Some idx \<Rightarrow>
         (case embed_query env query of
            Inl e \<Rightarrow> (Inl (Lib e), w\<lparr>trace := trace w @ [EmbedQuery query]\<rparr>)
          | Inr v \<Rightarrow> (Inr (nearest env idx v k), w\<lparr>trace := trace w @ [EmbedQuery query]\<rparr>)))"
  by (simp add: similarity_search_def faiss_similarity_search_def prog_defs
      split: option.splits sum.splits)

lemma from_documents_frame:
  "from_documents env docs w = (r, w') \<Longrightarrow> db w' = db w \<and> disk w' = disk w"
proof (induction docs arbitrary: w r w')
  case Nil
  then show ?case by (auto simp: prog_defs)
next
  case (Cons d ds)
  then show ?case
    by (auto simp: prog_defs split: sum.splits prod.splits)
qed

lemma from_documents_Inr:
  "from_documents env docs w = (Inr idx, w') \<Longrightarrow>
     map fst idx = docs \<and> list_all (\<lambda>(d, v). embed_document env (page_content d) = Inr v) idx
     \<and> embeddings_ok env docs"
proof (induction docs arbitrary: w idx w')
  case Nil
  then show ?case by (auto simp: prog_defs embeddings_ok_def)
next
  case (Cons d ds)
  from Cons.prems obtain v rest w1 where
    v: "embed_document env (page_content d) = Inr v" and
    rest: "from_documents env ds w1 = (Inr rest, w')" and
    idx: "idx = (d, v) # rest"
    by (auto simp: prog_defs split: sum.splits prod.splits)
  from Cons.IH[OF rest] v idx show ?case by (auto simp: embeddings_ok_def)
qed

lemma from_documents_Inl:
  "from_documents env docs w = (Inl e, w') \<Longrightarrow> \<not> embeddings_ok env docs"
proof (induction docs arbitrary: w w')
  case Nil
  then show ?case by (auto simp: prog_defs)
next
  case (Cons d ds)
  then show ?case
    by (auto simp: prog_defs embeddings_ok_def split: sum.splits prod.splits)
qed

lemma save_vector_db_eq:
  "db w = Some idx \<Longrightarrow>
   save_vector_db env w =
     (case save_local_error env of
        None \<Rightarrow> (Inr True, w\<lparr>trace := trace w @ [SaveLocal,
                     Print (''Successfully saved vector database to '' @ db_path)],
                   disk := Some (Inr idx)\<rparr>)
      | Some e \<Rightarrow> (Inr False, w\<lparr>trace := trace w @ [SaveLocal,
                     Print (''Error saving vector database: '' @ msg e)]\<rparr>))"
  by (simp add: save_vector_db_def save_local_def prog_defs split: option.splits)

lemma create_vector_db_Nil:
  "create_vector_db env [] w =
     (Inr False, w\<lparr>trace := trace w @
        [Print ''Error creating vector database: No documents provided for initialization'']\<rparr>)"
  by (simp add: create_vector_db_def prog_defs)

lemma create_vector_db_Inl:
  "documents \<noteq> [] \<Longrightarrow> from_documents env (ensure_documents documents) w = (Inl e, w1) \<Longrightarrow>
   create_vector_db env documents w =
     (Inr False, w1\<lparr>trace := trace w1 @ [Print (''Error creating vector database: '' @ str e)]\<rparr>)"
  by (simp add: create_vector_db_def prog_defs)

lemma create_vector_db_Inr:
  "documents \<noteq> [] \<Longrightarrow> from_documents env (ensure_documents documents) w = (Inr idx, w1) \<Longrightarrow>
   create_vector_db env documents w = save_vector_db env (w1\<lparr>db := Some idx\<rparr>)"
proof -
  assume a: "documents \<noteq> []" "from_documents env (ensure_documents documents) w = (Inr idx, w1)"
  have "\<exists>b w2. save_vector_db env (w1\<lparr>db := Some idx\<rparr>) = (Inr b, w2)"
    by (cases "save_local_error env") (auto simp: save_vector_db_eq)
  then show ?thesis using a
    by (auto simp: create_vector_db_def prog_defs)
qed

text \<open>The three ways a call of \<open>create_vector_db\<close> can go.\<close>

lemma create_vector_db_cases:
  obtains
    (empty) "documents = []"
  | (embed_fails) e w1 where "documents \<noteq> []"
      "from_documents env (ensure_documents documents) w = (Inl e, w1)"
      "\<not> embeddings_ok env (ensure_documents documents)" "db w1 = db w" "disk w1 = disk w"
  | (built) idx w1 where "documents \<noteq> []"
      "from_documents env (ensure_documents documents) w = (Inr idx, w1)"
      "embeddings_ok env (ensure_documents documents)" "complete_index env documents idx"
      "db w1 = db w" "disk w1 = disk w"
proof (cases "documents = []")
  case True
  then show ?thesis by (rule empty)
next
  case ne: False
  obtain r w1 where r: "from_documents env (ensure_documents documents) w = (r, w1)"
    by (cases "from_documents env (ensure_documents documents) w")
  note fr = from_documents_frame[OF r]
  show ?thesis
  proof (cases r)
    case (Inl e)
    with r ne fr from_documents_Inl[of env _ w e w1] show ?thesis
      by (auto intro: embed_fails)
  next
    case (Inr idx)
    with r ne fr from_documents_Inr[of env _ w idx w1] show ?thesis
      by (auto intro: built simp: complete_index_def)
  qed
qed

text \<open>Loading, and \<open>get_character_info\<close> with and without an index in memory.\<close>

lemma load_vector_db_eq:
  "load_vector_db env w =
     (case disk w of
        None \<Rightarrow> (Inr False, w\<lparr>trace := trace w @
                    [Print (''Error loading vector database: No vector database found at '' @ db_path)]\<rparr>)
      | Some (Inl e) \<Rightarrow> (Inr False, w\<lparr>trace := trace w @
                    [LoadLocal, Print (''Error loading vector database: '' @ msg e)]\<rparr>)
      | Some (Inr idx) \<Rightarrow> (Inr True, w\<lparr>trace := trace w @
                    [LoadLocal, Print (''Successfully loaded vector database from '' @ db_path)],
                    db := Some idx\<rparr>))"
  by (simp add: load_vector_db_def load_local_def os_path_exists_def prog_defs
      split: option.splits sum.splits)

lemma get_character_info_loaded:
  "db w = Some idx \<Longrightarrow>
   get_character_info env character_name w =
     (case embed_query env character_name of
        Inl e \<Rightarrow> (Inr (error_result (msg e)), w\<lparr>trace := trace w @ [EmbedQuery character_name]\<rparr>)
      | Inr v \<Rightarrow>
         (let prompt = the_prompt env idx v character_name;
              w1 = w\<lparr>trace := trace w @ [EmbedQuery character_name, Generate prompt]\<rparr>
          in case llm env prompt of
               Inl e \<Rightarrow> (Inr (error_result (msg e)), w1)
             | Inr response \<Rightarrow>
                (case json_loads env response of
                   Inr result \<Rightarrow> (Inr result, w1)
                 | Inl e \<Rightarrow>
                    if cls e = ''JSONDecodeError'' then (Inr parse_error_result, w1)
                    else (Inr (error_result (msg e)), w1))))"
  by (simp add: get_character_info_def qa_chain_run_def faiss_similarity_search_def prog_defs
      the_prompt_def error_result_def Let_def split: sum.splits)

lemma get_character_info_not_loaded:
  "db w = None \<Longrightarrow>
   get_character_info env character_name w =
     (case disk w of
        None \<Rightarrow> (Inr (error_result ''Failed to load vector database''),
                  w\<lparr>trace := trace w @
                    [Print (''Error loading vector database: No vector database found at '' @ db_path)]\<rparr>)
      | Some (Inl e) \<Rightarrow> (Inr (error_result ''Failed to load vector database''),
                  w\<lparr>trace := trace w @
                    [LoadLocal, Print (''Error loading vector database: '' @ msg e)]\<rparr>)
      | Some (Inr idx) \<Rightarrow>
          get_character_info env character_name
            (w\<lparr>trace := trace w @
                    [LoadLocal, Print (''Successfully loaded vector database from '' @ db_path)],
               db := Some idx\<rparr>))"
  apply (cases "disk w")
   apply (simp add: get_character_info_def load_vector_db_eq then_do_def try_except_def
      raise_def succeed_def error_result_def)
  subgoal for x
    apply (cases x)
     apply (simp add: get_character_info_def load_vector_db_eq then_do_def try_except_def
      raise_def succeed_def error_result_def)
    apply (simp add: get_character_info_def load_vector_db_eq then_do_def try_except_def
      raise_def succeed_def error_result_def)
    done
  done

lemma get_character_info_never_raises:
  "\<exists>result. fst (get_character_info env character_name w) = Inr result"
proof (cases "db w")
  case (Some idx)
  then show ?thesis
    by (simp add: get_character_info_loaded Let_def split: sum.splits)
next
  case None
  show ?thesis
  proof (cases "disk w")
    case dn: None
    with None show ?thesis by (simp add: get_character_info_not_loaded)
  next
    case (Some x)
    with None show ?thesis
      by (cases x) (simp_all add: get_character_info_not_loaded get_character_info_loaded Let_def
          split: sum.splits)
  qed
qed

text \<open>The loop over the files, and the three ways \<open>compute_embeddings\<close> can go.\<close>

lemma read_files_eq:
  "read_files files documents w =
     (Inr (documents @ surviving files), w\<lparr>trace := trace w @ warnings files\<rparr>)"
proof (induction files arbitrary: documents w)
  case Nil
  then show ?case by (simp add: surviving_def warnings_def succeed_def)
next
  case (Cons f files)
  show ?case
  proof (cases "read_decode f")
    case (Inl e)
    then show ?thesis
      by (simp add: Cons.IH prog_defs surviving_def warnings_def)
  next
    case (Inr content)
    then show ?thesis
      by (simp add: Cons.IH prog_defs surviving_def warnings_def)
  qed
qed

lemma create_vector_db_never_raises:
  "\<exists>b. fst (create_vector_db env documents w) = Inr b"
proof (cases rule: create_vector_db_cases[where documents=documents and env=env and w=w])
  case empty
  then show ?thesis by (auto simp add: create_vector_db_Nil)
next
  case (embed_fails e w1)
  then show ?thesis by (auto simp add: create_vector_db_Inl)
next
  case (built idx w1)
  then show ?thesis
    by (cases "save_local_error env") (auto simp add: create_vector_db_Inr save_vector_db_eq)
qed

lemma compute_embeddings_Nil:
  "compute_embeddings env [] w = (Inr ''Error computing embeddings: No files provided'', w)"
  by (simp add: compute_embeddings_def prog_defs)

lemma compute_embeddings_none_survives:
  "files \<noteq> [] \<Longrightarrow> surviving files = [] \<Longrightarrow>
   compute_embeddings env files w =
     (Inr ''Error computing embeddings: No valid documents found in provided files'',
      w\<lparr>trace := trace w @ warnings files\<rparr>)"
  by (simp add: compute_embeddings_def read_files_eq then_do_def try_except_def raise_def
      succeed_def)

lemma surviving_files_nonempty: "surviving files \<noteq> [] \<Longrightarrow> files \<noteq> []"
  by (auto simp: surviving_def)

lemma compute_embeddings_some_survive:
  assumes "surviving files \<noteq> []"
    and "split_documents 1000 200 [CHR 0x0A] (surviving files) = Inr texts"
  shows "compute_embeddings env files w =
     (Inr (if fst (create_vector_db env (map Doc texts) (w\<lparr>trace := trace w @ warnings files\<rparr>))
              = Inr True
           then ''Embeddings computed and stored successfully''
           else ''Error storing embeddings''),
      snd (create_vector_db env (map Doc texts) (w\<lparr>trace := trace w @ warnings files\<rparr>)))"
proof -
  obtain b w2 where c: "create_vector_db env (map Doc texts) (w\<lparr>trace := trace w @ warnings files\<rparr>)
      = (Inr b, w2)"
    using create_vector_db_never_raises[of env "map Doc texts" "w\<lparr>trace := trace w @ warnings files\<rparr>"]
    by (cases "create_vector_db env (map Doc texts) (w\<lparr>trace := trace w @ warnings files\<rparr>)") auto
  from assms surviving_files_nonempty[OF assms(1)] c show ?thesis
    by (simp add: compute_embeddings_def read_files_eq then_do_def try_except_def raise_def
      succeed_def lib_def)
qed

lemma split_documents_default:
  "documents \<noteq> [] \<Longrightarrow> \<exists>texts. split_documents 1000 200 sep documents = Inr texts"
  by (simp add: split_documents_def)











text \<open>
  The units of a text, joined by the separator, give the text back; and a text within the
  chunk size is its own single chunk.
\<close>

lemma join_Cons: "join sep (x # xs) = (if xs = [] then x else x @ sep @ join sep xs)"
  by (cases xs) auto

lemma units_nonempty: "units sep cur s \<noteq> []"
  by (induction sep cur s rule: units.induct) (auto simp: units.simps)

lemma join_units: "join sep (units sep cur s) = cur @ s"
proof (induction sep cur s rule: units.induct)
  case (1 sep cur)
  then show ?case by (simp add: units.simps)
next
  case (2 sep cur c cs)
  show ?case
  proof (cases "sep \<noteq> [] \<and> take (length sep) (c # cs) = sep")
    case True
    then have "join sep (units sep cur (c # cs)) =
        cur @ sep @ join sep (units sep [] (drop (length sep) (c # cs)))"
      by (simp add: units.simps(2)[of sep cur c cs] join_Cons units_nonempty)
    also have "\<dots> = cur @ take (length sep) (c # cs) @ drop (length sep) (c # cs)"
      using True 2 by simp
    finally show ?thesis by (simp only: append_take_drop_id)
  next
    case False
    then have "units sep cur (c # cs) = units sep (cur @ [c]) cs"
      by (auto simp: units.simps(2)[of sep cur c cs])
    with 2(2)[OF False] show ?thesis by simp
  qed
qed

lemma pack_fits:
  "length (join sep (cur # us)) \<le> cs \<Longrightarrow> pack cs ov sep (Some cur) us = [join sep (cur # us)]"
proof (induction us arbitrary: cur)
  case Nil
  then show ?case by simp
next
  case (Cons u us)
  from Cons.prems have fit: "length (cur @ sep @ u) \<le> cs"
    by (simp add: join_Cons split: if_splits)
  have eq: "join sep ((cur @ sep @ u) # us) = join sep (cur # u # us)"
    by (simp add: join_Cons)
  from Cons.IH[of "cur @ sep @ u"] Cons.prems fit eq show ?case
    by simp
qed

lemma split_text_short:
  "length text \<le> cs \<Longrightarrow> split_text cs ov sep text = [text]"
proof -
  assume len: "length text \<le> cs"
  obtain u us where u: "units sep [] text = u # us"
    using units_nonempty[of sep "[]" "text"] by (cases "units sep [] text") auto
  have j: "join sep (u # us) = text"
    using join_units[of sep "[]" "text"] u by simp
  with len have "pack cs ov sep (Some u) us = [text]"
    using pack_fits[of sep u us cs ov] by simp
  with u show ?thesis by (simp add: split_text_def)
qed









lemma tale_build:
  "fst (compute_embeddings demo_env [binary_file, tale_file] empty_world) =
     Inr ''Embeddings computed and stored successfully''"
  by code_simp

lemma demo_create_saved:
  "create_vector_db demo_env [Str ''Alice came.''] demo_world =
     (Inr True,
      \<lparr>db = Some [(\<lparr>page_content = ''Alice came.'', metadata = []\<rparr>, 11)],
       disk = Some (Inr [(\<lparr>page_content = ''Alice came.'', metadata = []\<rparr>, 11)]),
       trace = [EmbedDocument ''Alice came.'', SaveLocal,
                Print ''Successfully saved vector database to vector_store.faiss'']\<rparr>)"
  by code_simp

lemma demo_create_not_saved:
  "create_vector_db (demo_env\<lparr>save_local_error := Some permission_error\<rparr>)
     [Str ''Alice came.''] demo_world =
     (Inr False,
      \<lparr>db = Some [(\<lparr>page_content = ''Alice came.'', metadata = []\<rparr>, 11)],
       disk = Some (Inr [(demo_doc, 14)]),
       trace = [EmbedDocument ''Alice came.'', SaveLocal,
                Print ''Error saving vector database: [Errno 13] Permission denied'']\<rparr>)"
  by code_simp

subsection \<open>Search and clear\<close>

text \<open>
  Claim C4, as amended. \<open>similarity_search\<close> fails with the not-initialized error if and
  only if no index is in memory. After a \<open>clear_vector_db\<close> that succeeded (returned
  \<open>True\<close>), \<open>similarity_search\<close> fails with that error, for every query and \<open>k\<close>.
\<close>

theorem similarity_search_not_initialized_iff:
  "(fst (similarity_search env query k w) = Inl not_initialized \<longleftrightarrow> db w = None) \<and>
   (fst (clear_vector_db env w) = Inr True \<longrightarrow>
      fst (similarity_search env query k (snd (clear_vector_db env w))) = Inl not_initialized)"
  by (auto simp: similarity_search_eq clear_vector_db_eq not_initialized_def
      split: option.splits sum.splits)

theorem similarity_search_not_initialized_iff_witness:
  "fst (clear_vector_db demo_env demo_world) = Inr True \<and>
   fst (similarity_search demo_env ''Alice'' 4 (snd (clear_vector_db demo_env demo_world)))
     = Inl not_initialized \<and>
   db demo_world \<noteq> None \<and>
   fst (similarity_search demo_env ''Alice'' 4 demo_world) \<noteq> Inl not_initialized"
  using similarity_search_not_initialized_iff [of demo_env "''Alice''" 4 demo_world]
  by (simp add: clear_vector_db_eq demo_env_def demo_world_def)

text \<open>
  Claim C4 as stated fails where the removal of the file fails: \<open>clear_vector_db\<close> then
  returns \<open>False\<close> and keeps the index in memory, and the search that follows does not
  fail with the not-initialized error.
\<close>

theorem clear_then_search_counterexample:
  "\<not> (fst (similarity_search (demo_env\<lparr>os_remove_error := Some permission_error\<rparr>) ''Alice'' 4
          (snd (clear_vector_db (demo_env\<lparr>os_remove_error := Some permission_error\<rparr>)
                 demo_world)))
        = Inl not_initialized)"
  by (simp add: similarity_search_eq clear_vector_db_eq demo_env_def demo_world_def)

text \<open>
  Claim C5, as amended. Where nothing is stored on disk or the removal does not fail,
  \<open>clear_vector_db\<close> returns \<open>True\<close> and leaves no file and no index in memory. On an
  empty index (no file, no index in memory) it returns \<open>True\<close> and changes nothing. A
  second call in a row returns what the first returned and leaves the index in memory and
  the disk as the first left them. \<open>clean_up\<close> is \<open>clear_vector_db\<close>.
\<close>

theorem clear_vector_db_idempotent:
  "((disk w = None \<or> os_remove_error env = None) \<longrightarrow>
      fst (clear_vector_db env w) = Inr True \<and>
      disk (snd (clear_vector_db env w)) = None \<and>
      db (snd (clear_vector_db env w)) = None) \<and>
   (disk w = None \<and> db w = None \<longrightarrow> clear_vector_db env w = (Inr True, w)) \<and>
   fst (clear_vector_db env (snd (clear_vector_db env w))) = fst (clear_vector_db env w) \<and>
   db (snd (clear_vector_db env (snd (clear_vector_db env w)))) =
     db (snd (clear_vector_db env w)) \<and>
   disk (snd (clear_vector_db env (snd (clear_vector_db env w)))) =
     disk (snd (clear_vector_db env w)) \<and>
   clean_up env w = clear_vector_db env w"
  by (auto simp: clear_vector_db_eq clean_up_def split: option.splits)

theorem clear_vector_db_idempotent_witness:
  "os_remove_error demo_env = None \<and>
   fst (clear_vector_db demo_env demo_world) = Inr True \<and>
   disk (snd (clear_vector_db demo_env demo_world)) = None \<and>
   db (snd (clear_vector_db demo_env demo_world)) = None \<and>
   disk empty_world = None \<and> db empty_world = None \<and>
   clear_vector_db demo_env empty_world = (Inr True, empty_world) \<and>
   clean_up demo_env demo_world = clear_vector_db demo_env demo_world"
  using clear_vector_db_idempotent [of demo_world demo_env]
    clear_vector_db_idempotent [of empty_world demo_env]
  by (simp add: demo_env_def demo_world_def empty_world_def)

text \<open>
  Claim C5 as stated fails where the removal of the file fails: the file stays on disk
  and the index stays in memory.
\<close>

theorem clear_vector_db_counterexample:
  "\<not> (disk (snd (clear_vector_db (demo_env\<lparr>os_remove_error := Some permission_error\<rparr>)
                   demo_world)) = None \<and>
       db (snd (clear_vector_db (demo_env\<lparr>os_remove_error := Some permission_error\<rparr>)
                   demo_world)) = None)"
  by (simp add: clear_vector_db_eq demo_env_def demo_world_def)

subsection \<open>Building the index\<close>

text \<open>
  Claim C6. On an empty list \<open>create_vector_db\<close> returns \<open>False\<close> and only prints: no
  index is created. For every input, the index in memory after the call is the one from
  before the call or the complete index of the input, never a part of it. Where the
  embedding provider fails for some document, the call returns \<open>False\<close> and leaves the
  index in memory and the disk as they were.
\<close>

theorem create_vector_db_all_or_nothing:
  "create_vector_db env [] w =
     (Inr False, w\<lparr>trace := trace w @
        [Print ''Error creating vector database: No documents provided for initialization'']\<rparr>) \<and>
   (db (snd (create_vector_db env documents w)) = db w \<or>
    (case db (snd (create_vector_db env documents w)) of
       None \<Rightarrow> False
     | Some idx \<Rightarrow> complete_index env documents idx)) \<and>
   (\<not> embeddings_ok env (ensure_documents documents) \<longrightarrow>
      fst (create_vector_db env documents w) = Inr False \<and>
      db (snd (create_vector_db env documents w)) = db w \<and>
      disk (snd (create_vector_db env documents w)) = disk w)"
proof (cases rule: create_vector_db_cases[where documents=documents and env=env and w=w])
  case empty
  then show ?thesis by (simp add: create_vector_db_Nil)
next
  case (embed_fails e w1)
  then show ?thesis by (simp add: create_vector_db_Nil create_vector_db_Inl)
next
  case (built idx w1)
  then show ?thesis
    by (simp add: create_vector_db_Nil create_vector_db_Inr save_vector_db_eq
        split: option.splits)
qed

theorem create_vector_db_all_or_nothing_witness:
  "\<not> embeddings_ok (demo_env\<lparr>embed_document :=
          (\<lambda>s. if s = ''Bob left.'' then Inl provider_error else Inr (length s))\<rparr>)
        (ensure_documents [Str ''Alice came.'', Str ''Bob left.'']) \<and>
   fst (create_vector_db (demo_env\<lparr>embed_document :=
          (\<lambda>s. if s = ''Bob left.'' then Inl provider_error else Inr (length s))\<rparr>)
        [Str ''Alice came.'', Str ''Bob left.''] demo_world) = Inr False \<and>
   db (snd (create_vector_db (demo_env\<lparr>embed_document :=
          (\<lambda>s. if s = ''Bob left.'' then Inl provider_error else Inr (length s))\<rparr>)
        [Str ''Alice came.'', Str ''Bob left.''] demo_world)) = db demo_world \<and>
   disk (snd (create_vector_db (demo_env\<lparr>embed_document :=
          (\<lambda>s. if s = ''Bob left.'' then Inl provider_error else Inr (length s))\<rparr>)
        [Str ''Alice came.'', Str ''Bob left.''] demo_world)) = disk demo_world"
  using create_vector_db_all_or_nothing [of
      "demo_env\<lparr>embed_document :=
          (\<lambda>s. if s = ''Bob left.'' then Inl provider_error else Inr (length s))\<rparr>"
      demo_world "[Str ''Alice came.'', Str ''Bob left.'']"]
  by (simp add: embeddings_ok_def ensure_documents_def demo_env_def)

text \<open>
  Claim C10. \<open>create_vector_db\<close> returns \<open>True\<close> if and only if the input is not empty,
  the provider embeds every document and writing the index to disk does not fail; and
  when it returns \<open>True\<close>, the index in memory is the complete new index and that same
  index is what is stored on disk. Whenever it does not return \<open>True\<close> it returns
  \<open>False\<close> and the disk is as it was. Where the build succeeds and only the writing
  fails, it returns \<open>False\<close> although the complete new index has already taken the place
  of the index in memory.
\<close>

theorem create_vector_db_True_iff:
  "(fst (create_vector_db env documents w) = Inr True \<longleftrightarrow>
      documents \<noteq> [] \<and> embeddings_ok env (ensure_documents documents) \<and>
      save_local_error env = None) \<and>
   (fst (create_vector_db env documents w) = Inr True \<longrightarrow>
      (case db (snd (create_vector_db env documents w)) of
         None \<Rightarrow> False
       | Some idx \<Rightarrow>
           complete_index env documents idx \<and>
           disk (snd (create_vector_db env documents w)) = Some (Inr idx))) \<and>
   (fst (create_vector_db env documents w) \<noteq> Inr True \<longrightarrow>
      fst (create_vector_db env documents w) = Inr False \<and>
      disk (snd (create_vector_db env documents w)) = disk w) \<and>
   (documents \<noteq> [] \<and> embeddings_ok env (ensure_documents documents) \<and>
    save_local_error env \<noteq> None \<longrightarrow>
      fst (create_vector_db env documents w) = Inr False \<and>
      (case db (snd (create_vector_db env documents w)) of
         None \<Rightarrow> False
       | Some idx \<Rightarrow> complete_index env documents idx) \<and>
      disk (snd (create_vector_db env documents w)) = disk w)"
proof (cases rule: create_vector_db_cases[where documents=documents and env=env and w=w])
  case empty
  then show ?thesis by (simp add: create_vector_db_Nil)
next
  case (embed_fails e w1)
  then show ?thesis by (simp add: create_vector_db_Inl)
next
  case (built idx w1)
  show ?thesis
  proof (cases "save_local_error env")
    case None
    with built show ?thesis
      by (simp add: create_vector_db_Inr save_vector_db_eq)
  next
    case (Some e)
    with built show ?thesis
      by (simp add: create_vector_db_Inr save_vector_db_eq)
  qed
qed

theorem create_vector_db_True_iff_witness:
  "([Str ''Alice came.''] \<noteq> [] \<and>
    embeddings_ok (demo_env\<lparr>save_local_error := Some permission_error\<rparr>)
      (ensure_documents [Str ''Alice came.'']) \<and>
    save_local_error (demo_env\<lparr>save_local_error := Some permission_error\<rparr>) \<noteq> None) \<and>
   (fst (create_vector_db (demo_env\<lparr>save_local_error := Some permission_error\<rparr>)
          [Str ''Alice came.''] demo_world) = Inr False \<and>
    (case db (snd (create_vector_db (demo_env\<lparr>save_local_error := Some permission_error\<rparr>)
                     [Str ''Alice came.''] demo_world)) of
       None \<Rightarrow> False
     | Some idx \<Rightarrow>
         complete_index (demo_env\<lparr>save_local_error := Some permission_error\<rparr>)
           [Str ''Alice came.''] idx) \<and>
    disk (snd (create_vector_db (demo_env\<lparr>save_local_error := Some permission_error\<rparr>)
          [Str ''Alice came.''] demo_world)) = disk demo_world) \<and>
   db (snd (create_vector_db (demo_env\<lparr>save_local_error := Some permission_error\<rparr>)
          [Str ''Alice came.''] demo_world))
     = Some [(\<lparr>page_content = ''Alice came.'', metadata = []\<rparr>, 11)] \<and>
   db demo_world = Some [(demo_doc, 14)] \<and>
   fst (create_vector_db demo_env [Str ''Alice came.''] demo_world) = Inr True \<and>
   (case db (snd (create_vector_db demo_env [Str ''Alice came.''] demo_world)) of
      None \<Rightarrow> False
    | Some idx \<Rightarrow>
        complete_index demo_env [Str ''Alice came.''] idx \<and>
        disk (snd (create_vector_db demo_env [Str ''Alice came.''] demo_world))
          = Some (Inr idx)) \<and>
   disk (snd (create_vector_db demo_env [Str ''Alice came.''] demo_world))
     = Some (Inr [(\<lparr>page_content = ''Alice came.'', metadata = []\<rparr>, 11)])"
proof -
  have h1: "[Str ''Alice came.''] \<noteq> [] \<and>
    embeddings_ok (demo_env\<lparr>save_local_error := Some permission_error\<rparr>)
      (ensure_documents [Str ''Alice came.'']) \<and>
    save_local_error (demo_env\<lparr>save_local_error := Some permission_error\<rparr>) \<noteq> None"
    by (simp add: embeddings_ok_def ensure_documents_def demo_env_def)
  from create_vector_db_True_iff [of
      "demo_env\<lparr>save_local_error := Some permission_error\<rparr>"
      "[Str ''Alice came.'']" demo_world] h1
  have c1: "fst (create_vector_db (demo_env\<lparr>save_local_error := Some permission_error\<rparr>)
          [Str ''Alice came.''] demo_world) = Inr False \<and>
    (case db (snd (create_vector_db (demo_env\<lparr>save_local_error := Some permission_error\<rparr>)
                     [Str ''Alice came.''] demo_world)) of
       None \<Rightarrow> False
     | Some idx \<Rightarrow>
         complete_index (demo_env\<lparr>save_local_error := Some permission_error\<rparr>)
           [Str ''Alice came.''] idx) \<and>
    disk (snd (create_vector_db (demo_env\<lparr>save_local_error := Some permission_error\<rparr>)
          [Str ''Alice came.''] demo_world)) = disk demo_world"
    by blast
  have h2: "fst (create_vector_db demo_env [Str ''Alice came.''] demo_world) = Inr True"
    by (simp add: demo_create_saved)
  from create_vector_db_True_iff [of demo_env "[Str ''Alice came.'']" demo_world] h2
  have c2: "case db (snd (create_vector_db demo_env [Str ''Alice came.''] demo_world)) of
      None \<Rightarrow> False
    | Some idx \<Rightarrow>
        complete_index demo_env [Str ''Alice came.''] idx \<and>
        disk (snd (create_vector_db demo_env [Str ''Alice came.''] demo_world))
          = Some (Inr idx)"
    by blast
  have v1: "db (snd (create_vector_db (demo_env\<lparr>save_local_error := Some permission_error\<rparr>)
          [Str ''Alice came.''] demo_world))
     = Some [(\<lparr>page_content = ''Alice came.'', metadata = []\<rparr>, 11)]"
    by (simp add: demo_create_not_saved)
  have v2: "db demo_world = Some [(demo_doc, 14)]"
    by (simp add: demo_world_def)
  have v3: "disk (snd (create_vector_db demo_env [Str ''Alice came.''] demo_world))
     = Some (Inr [(\<lparr>page_content = ''Alice came.'', metadata = []\<rparr>, 11)])"
    by (simp add: demo_create_saved)
  from h1 c1 v1 v2 h2 c2 v3 show ?thesis by blast
qed

subsection \<open>Character information\<close>

text \<open>
  Claim C3. When no index is in memory, \<open>get_character_info\<close> first loads the persisted
  index. If the load fails, the result is the error result with the message
  \<open>Error getting character information: Failed to load vector database\<close>; the state is
  the one the load attempt left, with no index in memory, and no retrieval event (embedding
  the query, calling the generation provider) has been added to the trace. If the load
  succeeds, the index is in memory and the call goes on from that state.
\<close>

theorem get_character_info_loads_first:
  "db w = None \<longrightarrow>
     (fst (load_vector_db env w) = Inr False \<longrightarrow>
        get_character_info env character_name w =
          (Inr (error_result ''Failed to load vector database''), snd (load_vector_db env w)) \<and>
        db (snd (get_character_info env character_name w)) = None \<and>
        take (length (trace w)) (trace (snd (get_character_info env character_name w))) = trace w \<and>
        \<not> list_ex retrieval_event
             (drop (length (trace w)) (trace (snd (get_character_info env character_name w))))) \<and>
     (fst (load_vector_db env w) = Inr True \<longrightarrow>
        db (snd (load_vector_db env w)) \<noteq> None \<and>
        get_character_info env character_name w =
          get_character_info env character_name (snd (load_vector_db env w)))"
proof (intro impI)
  assume none: "db w = None"
  show "(fst (load_vector_db env w) = Inr False \<longrightarrow>
        get_character_info env character_name w =
          (Inr (error_result ''Failed to load vector database''), snd (load_vector_db env w)) \<and>
        db (snd (get_character_info env character_name w)) = None \<and>
        take (length (trace w)) (trace (snd (get_character_info env character_name w))) = trace w \<and>
        \<not> list_ex retrieval_event
             (drop (length (trace w)) (trace (snd (get_character_info env character_name w))))) \<and>
     (fst (load_vector_db env w) = Inr True \<longrightarrow>
        db (snd (load_vector_db env w)) \<noteq> None \<and>
        get_character_info env character_name w =
          get_character_info env character_name (snd (load_vector_db env w)))"
  proof (cases "disk w")
    case None
    with none show ?thesis
      by (simp add: get_character_info_not_loaded[OF none] load_vector_db_eq)
  next
    case (Some x)
    show ?thesis
    proof (cases x)
      case (Inl e)
      with Some none show ?thesis
        by (simp add: get_character_info_not_loaded[OF none] load_vector_db_eq)
    next
      case (Inr idx)
      with Some none show ?thesis
        by (simp add: get_character_info_not_loaded[OF none] load_vector_db_eq)
    qed
  qed
qed

theorem get_character_info_loads_first_witness:
  "db empty_world = None \<and>
   fst (load_vector_db demo_env empty_world) = Inr False \<and>
   fst (get_character_info demo_env ''Alice'' empty_world) =
     Inr (JObject [(''error'',
       JString ''Error getting character information: Failed to load vector database'')]) \<and>
   trace (snd (get_character_info demo_env ''Alice'' empty_world)) =
     [Print ''Error loading vector database: No vector database found at vector_store.faiss''] \<and>
   db (demo_world\<lparr>db := None\<rparr>) = None \<and>
   fst (load_vector_db demo_env (demo_world\<lparr>db := None\<rparr>)) = Inr True \<and>
   db (snd (load_vector_db demo_env (demo_world\<lparr>db := None\<rparr>))) = Some [(demo_doc, 14)]"
  using get_character_info_loads_first [of empty_world demo_env "''Alice''"]
    get_character_info_loads_first [of "demo_world\<lparr>db := None\<rparr>" demo_env "''Alice''"]
  by (simp add: load_vector_db_eq empty_world_def demo_world_def error_result_def db_path_def)

text \<open>
  Claim C1 at the provider output \<open>42\<close>. The text is valid JSON but not an object:
  \<open>get_character_info\<close> returns the integer 42, which is not a dict, although the
  function is declared and documented to return one.
\<close>

theorem get_character_info_returns_non_dict:
  "fst (get_character_info demo_env ''Alice'' demo_world) = Inr (JInt 42) \<and>
   \<not> is_dict (JInt 42)"
  by (simp add: get_character_info_loaded demo_env_def demo_world_def json_loads_sample_def)

text \<open>
  Claim C2 as stated fails at the provider output \<open>{"foo": 1}\<close>: the object comes back
  unchanged, and it neither has the shape of a Character Info Result nor is an error
  marker.
\<close>

theorem get_character_info_shape_counterexample:
  \<open>fst (get_character_info (demo_env\<lparr>llm := (\<lambda>p. Inr ''{"foo": 1}'')\<rparr>) ''Alice'' demo_world)
     = Inr (JObject [(''foo'', JInt 1)]) \<and>
   \<not> (character_info_shape (JObject [(''foo'', JInt 1)]) \<or>
       error_marker (JObject [(''foo'', JInt 1)]))\<close>
  by (simp add: get_character_info_loaded demo_env_def demo_world_def json_loads_sample_def
      has_keys_def)

text \<open>
  Claim C2, as amended. With an index in memory or loadable from disk, let the provider
  answer the prompt with a text. If \<open>json.loads\<close> reads the text as an object, that object
  is the result, whatever its fields; if \<open>json.loads\<close> rejects the text with a
  \<open>JSONDecodeError\<close>, the result is the parse-error marker.
\<close>

theorem get_character_info_parses_json:
  "(db w = Some idx \<or> db w = None \<and> disk w = Some (Inr idx)) \<and>
   embed_query env character_name = Inr v \<and>
   llm env (the_prompt env idx v character_name) = Inr response \<longrightarrow>
     (json_loads env response = Inr (JObject kvs) \<longrightarrow>
        fst (get_character_info env character_name w) = Inr (JObject kvs)) \<and>
     (json_loads env response = Inl e \<and> cls e = ''JSONDecodeError'' \<longrightarrow>
        fst (get_character_info env character_name w) = Inr parse_error_result)"
  by (auto simp: get_character_info_not_loaded get_character_info_loaded Let_def)

theorem get_character_info_parses_json_witness:
  \<open>db demo_world = Some [(demo_doc, 14)] \<and>
   embed_query (demo_env\<lparr>llm := (\<lambda>p. Inr ''{"foo": 1}'')\<rparr>) ''Alice'' = Inr 5 \<and>
   json_loads (demo_env\<lparr>llm := (\<lambda>p. Inr ''{"foo": 1}'')\<rparr>) ''{"foo": 1}''
     = Inr (JObject [(''foo'', JInt 1)]) \<and>
   fst (get_character_info (demo_env\<lparr>llm := (\<lambda>p. Inr ''{"foo": 1}'')\<rparr>) ''Alice'' demo_world)
     = Inr (JObject [(''foo'', JInt 1)]) \<and>
   json_loads (demo_env\<lparr>llm := (\<lambda>p. Inr ''not json'')\<rparr>) ''not json'' = Inl json_decode_error \<and>
   cls json_decode_error = ''JSONDecodeError'' \<and>
   fst (get_character_info (demo_env\<lparr>llm := (\<lambda>p. Inr ''not json'')\<rparr>) ''Alice'' demo_world)
     = Inr parse_error_result\<close>
  using get_character_info_parses_json [of demo_world "[(demo_doc, 14)]"
      \<open>demo_env\<lparr>llm := (\<lambda>p. Inr ''{"foo": 1}'')\<rparr>\<close> "''Alice''" 5 \<open>''{"foo": 1}''\<close>
      "[(''foo'', JInt 1)]"]
    get_character_info_parses_json [of demo_world "[(demo_doc, 14)]"
      \<open>demo_env\<lparr>llm := (\<lambda>p. Inr ''not json'')\<rparr>\<close> "''Alice''" 5 \<open>''not json''\<close>
      _ json_decode_error]
  by (simp add: demo_env_def demo_world_def json_loads_sample_def json_decode_error_def)

subsection \<open>The build path\<close>

text \<open>
  Claim C7, as amended. On an empty list of files \<open>compute_embeddings\<close> reports that no
  files were provided. Files that fail to decode are skipped with a printed warning each;
  if none is left, it reports that no valid documents were found, and nothing is built.
  Otherwise the documents of the files that decode are split and handed to
  \<open>create_vector_db\<close>, and the message is the success message if that returns \<open>True\<close>
  and \<open>Error storing embeddings\<close> if it returns \<open>False\<close>.
\<close>

theorem compute_embeddings_skips_undecodable:
  "(files = [] \<longrightarrow>
      compute_embeddings env files w =
        (Inr ''Error computing embeddings: No files provided'', w)) \<and>
   (files \<noteq> [] \<and> surviving files = [] \<longrightarrow>
      compute_embeddings env files w =
        (Inr ''Error computing embeddings: No valid documents found in provided files'',
         w\<lparr>trace := trace w @ warnings files\<rparr>)) \<and>
   (surviving files \<noteq> [] \<longrightarrow>
      (\<exists>texts. split_documents 1000 200 [CHR 0x0A] (surviving files) = Inr texts \<and>
         compute_embeddings env files w =
           (Inr (if fst (create_vector_db env (map Doc texts)
                          (w\<lparr>trace := trace w @ warnings files\<rparr>)) = Inr True
                 then ''Embeddings computed and stored successfully''
                 else ''Error storing embeddings''),
            snd (create_vector_db env (map Doc texts)
                   (w\<lparr>trace := trace w @ warnings files\<rparr>)))))"
proof (intro conjI impI)
  assume "files = []"
  then show "compute_embeddings env files w =
        (Inr ''Error computing embeddings: No files provided'', w)"
    by (simp add: compute_embeddings_Nil)
next
  assume "files \<noteq> [] \<and> surviving files = []"
  then show "compute_embeddings env files w =
        (Inr ''Error computing embeddings: No valid documents found in provided files'',
         w\<lparr>trace := trace w @ warnings files\<rparr>)"
    by (simp add: compute_embeddings_none_survives)
next
  assume s: "surviving files \<noteq> []"
  then obtain texts where t: "split_documents 1000 200 [CHR 0x0A] (surviving files) = Inr texts"
    using split_documents_default by blast
  from compute_embeddings_some_survive[OF s t] t
  show "\<exists>texts. split_documents 1000 200 [CHR 0x0A] (surviving files) = Inr texts \<and>
         compute_embeddings env files w =
           (Inr (if fst (create_vector_db env (map Doc texts)
                          (w\<lparr>trace := trace w @ warnings files\<rparr>)) = Inr True
                 then ''Embeddings computed and stored successfully''
                 else ''Error storing embeddings''),
            snd (create_vector_db env (map Doc texts)
                   (w\<lparr>trace := trace w @ warnings files\<rparr>)))"
    by blast
qed

theorem compute_embeddings_skips_undecodable_witness:
  "[binary_file] \<noteq> [] \<and> surviving [binary_file] = [] \<and>
   compute_embeddings demo_env [binary_file] empty_world =
     (Inr ''Error computing embeddings: No valid documents found in provided files'',
      empty_world\<lparr>trace := [Print ''Error processing file photo.txt: invalid start byte'']\<rparr>) \<and>
   surviving [binary_file, tale_file] \<noteq> [] \<and>
   fst (compute_embeddings demo_env [binary_file, tale_file] empty_world) =
     Inr ''Embeddings computed and stored successfully''"
  using compute_embeddings_skips_undecodable [of "[binary_file]" demo_env empty_world]
    compute_embeddings_skips_undecodable [of "[binary_file, tale_file]" demo_env empty_world]
    tale_build
  by (simp add: surviving_def warnings_def binary_file_def tale_file_def decode_error_def
      empty_world_def)

text \<open>
  Claim C7 as stated fails where the embedding provider fails: the file list is not empty
  and its file decodes, yet the build fails.
\<close>

theorem compute_embeddings_counterexample:
  "[tale_file] \<noteq> [] \<and> surviving [tale_file] \<noteq> [] \<and>
   fst (compute_embeddings (demo_env\<lparr>embed_document := (\<lambda>s. Inl provider_error)\<rparr>)
          [tale_file] empty_world) = Inr ''Error storing embeddings''"
  by code_simp

text \<open>
  Claim C9 at the file name \<open>story.txt.old.txt\<close>. The title is the name with every
  occurrence of \<open>.txt\<close> removed, \<open>story.old\<close>, and not the name without its trailing
  extension, \<open>story.txt.old\<close>.
\<close>

theorem title_replaces_every_txt:
  "metadata (document_of \<lparr>name = ''story.txt.old.txt'', read_decode = Inr ''Once.''\<rparr> ''Once.'')
     = [(''title'', ''story.old'')] \<and>
   ''story.old'' \<noteq> ''story.txt.old''"
  by (simp add: document_of_def) code_simp




end
